theory Spec2Isabelle
  imports Main "HOL-Library.Word"
begin

unbundle bit_operations_syntax

section \<open>The parameter command of mflowgen (param\_handler.py)\<close>

subsection \<open>Python values\<close>

text \<open>
  The command-line flags reach \<^verbatim>\<open>ParamHandler.launch\<close> as Python objects: \<^verbatim>\<open>None\<close>
  for a flag that was not given, a string or an integer for \<^verbatim>\<open>--key\<close>, \<^verbatim>\<open>--value\<close>
  and \<^verbatim>\<open>--step\<close>, a boolean for \<^verbatim>\<open>--help\<close> and \<^verbatim>\<open>--all\<close>. The handler only
  tests their truth value and formats them with \<^verbatim>\<open>str\<close>.
\<close>

datatype pyval = PNone | PBool bool | PInt int | PStr string

text \<open>Python's truth value testing, as used by \<^verbatim>\<open>if\<close>, \<^verbatim>\<open>not\<close> and \<^verbatim>\<open>or\<close>.\<close>

fun truthy :: "pyval \<Rightarrow> bool" where
  "truthy PNone = False"
| "truthy (PBool b) = b"
| "truthy (PInt i) = (i \<noteq> 0)"
| "truthy (PStr s) = (s \<noteq> [])"

definition digit_char :: "nat \<Rightarrow> char" where
  "digit_char d = ''0123456789'' ! d"

fun show_nat :: "nat \<Rightarrow> string" where
  "show_nat n =
     (if n < 10 then [digit_char n] else show_nat (n div 10) @ [digit_char (n mod 10)])"

declare show_nat.simps [simp del]

definition show_int :: "int \<Rightarrow> string" where
  "show_int i = (if i < 0 then CHR ''-'' # show_nat (nat (- i)) else show_nat (nat i))"

text \<open>Python's \<^verbatim>\<open>str\<close>, which \<^verbatim>\<open>str.format\<close> applies to each field.\<close>

fun py_str :: "pyval \<Rightarrow> string" where
  "py_str PNone = ''None''"
| "py_str (PBool b) = (if b then ''True'' else ''False'')"
| "py_str (PInt i) = show_int i"
| "py_str (PStr s) = s"

subsection \<open>The world the command runs in\<close>

text \<open>
  The header of param\_handler.py says where parameters live: in the hidden metadata
  directory \<^verbatim>\<open>.mflowgen\<close> of the elaborated graph, in the \<^verbatim>\<open>configure.yml\<close> and the
  \<^verbatim>\<open>mflowgen-run\<close> script of each node. The world is the text printed so far together
  with that directory: \<open>None\<close> when it does not exist, otherwise the files of each
  step under the step's number.
\<close>

record step_files =
  parameters :: "pyval \<rightharpoonup> pyval"
  run_script :: "string list"

record world =
  stdout :: "string list"
  metadata :: "(nat \<rightharpoonup> step_files) option"

text \<open>How a call ends: it returns to its caller, or \<^verbatim>\<open>sys.exit\<close> ends the process.\<close>

datatype outcome = Returned | Exited int

text \<open>
  The exit status of the process: the status given to \<^verbatim>\<open>sys.exit\<close>, and 0 when the
  handler returns and the interpreter ends normally.
\<close>

fun exit_status :: "outcome \<Rightarrow> int" where
  "exit_status Returned = 0"
| "exit_status (Exited n) = n"

text \<open>\<^verbatim>\<open>print\<close> writes its arguments separated by one space, as one line.\<close>

fun unwords :: "string list \<Rightarrow> string" where
  "unwords [] = []"
| "unwords [x] = x"
| "unwords (x # y # ys) = x @ CHR '' '' # unwords (y # ys)"

definition print :: "string list \<Rightarrow> world \<Rightarrow> world" where
  "print xs w = w\<lparr>stdout := stdout w @ [unwords xs]\<rparr>"

definition prints :: "string list list \<Rightarrow> world \<Rightarrow> world" where
  "prints ls w = fold print ls w"

subsection \<open>ParamHandler\<close>

text \<open>
  \<^verbatim>\<open>bold\<close> comes from \<^verbatim>\<open>mflowgen.utils\<close>, which is not part of the sources at hand;
  it is a parameter of every function that prints help.
\<close>

definition commands :: "string list" where
  "commands = [''update'', ''help'']"

definition launch_help_lines :: "(string \<Rightarrow> string) \<Rightarrow> string list list" where
  \<open>launch_help_lines bold =
     [ [],
       [bold ''Param Commands''],
       [],
       [bold '' - update :'', ''Interactive update parameters''],
       [],
       [''Run any command with -h to see more details''],
       [] ]\<close>

definition launch_help :: "(string \<Rightarrow> string) \<Rightarrow> world \<Rightarrow> outcome \<times> world" where
  "launch_help bold w = (Returned, prints (launch_help_lines bold) w)"

definition print_help_lines :: "(string \<Rightarrow> string) \<Rightarrow> string list list" where
  \<open>print_help_lines bold =
     [ [],
       [bold ''Usage:'', ''mflowgen param update'', ''--key/-k <key>'',
        ''--value/-v <value>'', ''[--step/-s <int>]'', ''[--all]''],
       [],
       [bold ''Example:'', ''mflowgen param update'',
        ''--key clock_period --value 2.0'', ''--all''],
       [],
       [''Updates the parameter for the given step in the build''],
       [''graph. The parameter key-value pair is only updated if''],
       [''the key is defined and exists. The --all option applies''],
       [''the update to all nodes in the currently elaborated graph.''],
       [] ]\<close>

definition print_help :: "(string \<Rightarrow> string) \<Rightarrow> world \<Rightarrow> world" where
  "print_help bold w = prints (print_help_lines bold) w"

text \<open>The line that \<^verbatim>\<open>launch_update\<close> formats after its implementation block.\<close>

definition updated_line :: "pyval \<Rightarrow> pyval \<Rightarrow> pyval \<Rightarrow> string" where
  \<open>updated_line key val step =
     ''Updated parameter "'' @ py_str key @ ''" = "'' @ py_str val
       @ ''" for step "'' @ py_str step @ ''"''\<close>

text \<open>
  \<^verbatim>\<open>launch_update\<close>: the guard that prints the help and returns, then the
  implementation block, which is empty in the source (between the markers
  \<^verbatim>\<open>Implement here\<close> and \<^verbatim>\<open>End of implementation\<close> there is no statement), then the
  \<^verbatim>\<open>print\<close> of the confirmation. No statement of the function reads or writes a file,
  so the metadata of the world passes through as it is.
\<close>

definition launch_update ::
  "(string \<Rightarrow> string) \<Rightarrow> pyval \<Rightarrow> pyval \<Rightarrow> pyval \<Rightarrow> pyval \<Rightarrow> pyval \<Rightarrow> world \<Rightarrow> outcome \<times> world"
where
  "launch_update bold help' key val step all' w =
     (if truthy help' \<or> \<not> truthy key \<or> \<not> truthy val \<or> \<not> (truthy step \<or> truthy all')
      then (Returned, print_help bold w)
      else (Returned, print [updated_line key val step] w))"

text \<open>
  \<^verbatim>\<open>launch\<close>: the two \<^verbatim>\<open>try\<close> blocks are written out. \<^verbatim>\<open>args[0]\<close> raises
  IndexError on the empty list and the \<^verbatim>\<open>assert\<close> raises AssertionError on an unknown
  command; both are caught by the same handler, which prints and calls
  \<^verbatim>\<open>sys.exit(1)\<close>. The second \<^verbatim>\<open>assert\<close> fails when there are further positional
  arguments; its handler prints two lines and sets \<^verbatim>\<open>help_\<close> to \<^verbatim>\<open>True\<close>.
  (Assertions are executed: the interpreter runs without \<^verbatim>\<open>-O\<close>.)
\<close>

definition unrecognized_commands :: string where
  \<open>unrecognized_commands = ''param: Unrecognized commands (see "mflowgen param help")''\<close>

definition launch ::
  "(string \<Rightarrow> string) \<Rightarrow> string list \<Rightarrow> pyval \<Rightarrow> pyval \<Rightarrow> pyval \<Rightarrow> pyval \<Rightarrow> pyval \<Rightarrow> world
     \<Rightarrow> outcome \<times> world"
where
  "launch bold args help' key val step all' w =
     (if truthy help' \<and> args = [] then launch_help bold w
      else
        (case args of
           [] \<Rightarrow> (Exited 1, print [unrecognized_commands] w)
         | command # rest \<Rightarrow>
             if command \<notin> set commands then (Exited 1, print [unrecognized_commands] w)
             else
               let (w1, help1) =
                     (if length args \<le> 1 then (w, help')
                      else (print [''param: Unrecognized positional args''] (print [] w),
                            PBool True))
               in if command = ''update'' then launch_update bold help1 key val step all' w1
                  else launch_help bold w1))"

subsection \<open>Steps of the elaborated graph\<close>

text \<open>
  The steps of the graph are numbered (\<^verbatim>\<open>--step/-s <int>\<close> in the help of
  \<^verbatim>\<open>launch_update\<close>). A \<^verbatim>\<open>--step\<close> value names a step when it is a non-negative
  integer or a string of decimal digits. \<^verbatim>\<open>launch_update\<close> itself never looks a step
  up; these functions only serve to speak about the files of a step before and after
  a call.
\<close>

definition digit_val :: "char \<Rightarrow> nat option" where
  "digit_val c = (if c \<in> set ''0123456789'' then Some (of_char c - 48) else None)"

fun decimal_acc :: "nat \<Rightarrow> string \<Rightarrow> nat option" where
  "decimal_acc n [] = Some n"
| "decimal_acc n (c # cs) =
     (case digit_val c of None \<Rightarrow> None | Some d \<Rightarrow> decimal_acc (10 * n + d) cs)"

definition decimal :: "string \<Rightarrow> nat option" where
  "decimal s = (if s = [] then None else decimal_acc 0 s)"

fun step_id :: "pyval \<Rightarrow> nat option" where
  "step_id (PInt i) = (if 0 \<le> i then Some (nat i) else None)"
| "step_id (PStr s) = decimal s"
| "step_id PNone = None"
| "step_id (PBool b) = None"

definition files_of_step :: "world \<Rightarrow> nat \<Rightarrow> step_files option" where
  "files_of_step w n = (case metadata w of None \<Rightarrow> None | Some g \<Rightarrow> g n)"

definition resolve_step :: "world \<Rightarrow> pyval \<Rightarrow> step_files option" where
  "resolve_step w step = (case step_id step of None \<Rightarrow> None | Some n \<Rightarrow> files_of_step w n)"

text \<open>
  Two worlds for the examples: a graph elaborated with step 5, whose parameters
  define \<^verbatim>\<open>clock_period\<close>, and step 6, whose parameters do not; and a directory in
  which no graph was elaborated.
\<close>

definition synthesis_files :: step_files where
  "synthesis_files =
     \<lparr>parameters = [PStr ''clock_period'' \<mapsto> PStr ''1.0'', PStr ''design_name'' \<mapsto> PStr ''GcdUnit''],
      run_script = [''export clock_period=1.0'', ''export design_name=GcdUnit'']\<rparr>"

definition signoff_files :: step_files where
  "signoff_files =
     \<lparr>parameters = [PStr ''design_name'' \<mapsto> PStr ''GcdUnit''],
      run_script = [''export design_name=GcdUnit'']\<rparr>"

definition elaborated :: world where
  "elaborated = \<lparr>stdout = [], metadata = Some [5 \<mapsto> synthesis_files, 6 \<mapsto> signoff_files]\<rparr>"

definition not_elaborated :: world where
  "not_elaborated = \<lparr>stdout = [], metadata = None\<rparr>"

section \<open>The datapath of the instruction buffer (InstBufferDpath.py)\<close>

text \<open>
  \<^verbatim>\<open>clog2\<close> is pymtl's: the least number of bits that distinguish \<open>n\<close> values,
  \<open>\<lceil>log\<^sub>2 n\<rceil>\<close>.
\<close>

fun clog2 :: "nat \<Rightarrow> nat" where
  "clog2 n = (if n \<le> 1 then 0 else Suc (clog2 ((n + 1) div 2)))"

declare clog2.simps [simp del]

text \<open>
  The constants of the constructor: \<^verbatim>\<open>opaque_nbits = 8\<close> and \<^verbatim>\<open>addr_nbits = 32\<close> are
  the widths of the words below, \<^verbatim>\<open>line_bw = clog2( line_nbytes )\<close>. The constructor
  builds registers of \<^verbatim>\<open>tag_nbits = addr_nbits - line_bw\<close> bits, so a datapath exists
  only for line sizes with \<open>line_bw < 32\<close>.
\<close>

definition line_bw :: "nat \<Rightarrow> nat" where
  "line_bw line_nbytes = clog2 line_nbytes"

text \<open>
  The memory request. \<^verbatim>\<open>MemReqMsg\<close> is imported from \<^verbatim>\<open>ifcs\<close>, which is not part of
  the sources at hand: the fields are those the datapath assigns, the encoding
  \<^verbatim>\<open>MemReqMsg.TYPE_READ\<close> is a parameter, and the two fields whose widths only
  \<^verbatim>\<open>MemReqMsg\<close> fixes (\<^verbatim>\<open>type_\<close>, \<^verbatim>\<open>len\<close>) and the data hold their unsigned values.
\<close>

record memreq =
  type' :: nat
  opaque :: "8 word"
  addr :: "32 word"
  len :: nat
  data :: nat

text \<open>
  The signals that \<^verbatim>\<open>comb_memreq_msg_pack\<close> reads and drives: the output of the
  register \<^verbatim>\<open>buffreq_addr_reg\<close> and the port \<^verbatim>\<open>memreq_msg\<close>.
\<close>

record dpath =
  buffreq_addr_reg_out :: "32 word"
  memreq_msg :: memreq

text \<open>
  \<^verbatim>\<open>x[lo:addr_nbits]\<close> are the bits of \<open>x\<close> from \<open>lo\<close> upwards, and
  \<^verbatim>\<open>concat( t, Bits( k, 0 ) )\<close> puts \<open>k\<close> zero bits below \<open>t\<close>.
\<close>

definition slice_from :: "nat \<Rightarrow> 32 word \<Rightarrow> 32 word" where
  "slice_from lo x = drop_bit lo x"

definition concat_zeros :: "32 word \<Rightarrow> nat \<Rightarrow> 32 word" where
  "concat_zeros t k = push_bit k t"

definition comb_memreq_msg_pack :: "nat \<Rightarrow> nat \<Rightarrow> dpath \<Rightarrow> dpath" where
  "comb_memreq_msg_pack TYPE_READ line_nbytes s =
     s\<lparr>memreq_msg := (memreq_msg s)
         \<lparr>type' := TYPE_READ,
          opaque := 0,
          addr := concat_zeros (slice_from (line_bw line_nbytes) (buffreq_addr_reg_out s))
                    (line_bw line_nbytes),
          len := 0\<rparr>\<rparr>"

section \<open>Properties of the parameter command\<close>

subsection \<open>Printing leaves the metadata alone\<close>

lemma prints_eq: "prints ls w = w\<lparr>stdout := stdout w @ map unwords ls\<rparr>"
  unfolding prints_def by (induction ls arbitrary: w) (simp_all add: print_def)

lemma metadata_print: "metadata (print xs w) = metadata w"
  by (simp add: print_def)

lemma metadata_launch_update:
  "metadata (snd (launch_update bold help' key val step all' w)) = metadata w"
  by (simp add: launch_update_def print_help_def prints_eq metadata_print)

lemma files_of_step_launch_update:
  "files_of_step (snd (launch_update bold help' key val step all' w)) n = files_of_step w n"
  by (simp add: files_of_step_def metadata_launch_update)

lemma resolve_step_launch_update:
  "resolve_step (snd (launch_update bold help' key val step all' w)) s = resolve_step w s"
  by (simp add: resolve_step_def files_of_step_launch_update split: option.split)

subsection \<open>The two paths of \<open>launch_update\<close>\<close>

lemma launch_update_help:
  assumes "truthy help' \<or> \<not> truthy key \<or> \<not> truthy val \<or> \<not> (truthy step \<or> truthy all')"
  shows "launch_update bold help' key val step all' w
           = (Returned, w\<lparr>stdout := stdout w @ map unwords (print_help_lines bold)\<rparr>)"
  using assms by (simp add: launch_update_def print_help_def prints_eq)

lemma launch_update_valid:
  assumes "\<not> truthy help'" and "truthy key" and "truthy val" and "truthy step \<or> truthy all'"
  shows "launch_update bold help' key val step all' w
           = (Returned, w\<lparr>stdout := stdout w @ [updated_line key val step]\<rparr>)"
  using assms by (simp add: launch_update_def print_def)

lemma fst_launch_update: "fst (launch_update bold help' key val step all' w) = Returned"
  by (simp add: launch_update_def)

lemma launch_single_update:
  "launch bold [''update''] help' key val step all' w
     = launch_update bold help' key val step all' w"
  by (simp add: launch_def commands_def)

text \<open>The equations that evaluate a call on the example worlds.\<close>

lemmas run_simps =
  launch_update_def print_def updated_line_def elaborated_def not_elaborated_def
  resolve_step_def files_of_step_def show_int_def show_nat.simps digit_char_def
  decimal_def digit_val_def synthesis_files_def signoff_files_def

subsection \<open>Updating an existing step\<close>

text \<open>
  C1 asks that \<^verbatim>\<open>update(key, value, S)\<close> on an existing step \<open>S\<close> whose parameters
  define the key leaves \<open>parameters[key] = value\<close> in the configuration of \<open>S\<close> and
  regenerates its run script. The implementation block of \<^verbatim>\<open>launch_update\<close> is empty,
  and what the code does is this: an existing step whose parameters define the key
  has, after the call, the files it had before, with the old value under the key and
  the old run script.
\<close>

theorem update_existing_step_stub:
  assumes "resolve_step w step = Some f" and "parameters f key = Some old"
  shows "resolve_step (snd (launch_update bold help' key val step all' w)) step = Some f"
  using assms by (simp add: resolve_step_launch_update)

text \<open>
  On the elaborated graph, \<^verbatim>\<open>--step 5 --key clock_period --value 2.0\<close> returns after
  printing the confirmation, and step 5 still has \<^verbatim>\<open>clock_period\<close> at 1.0.
\<close>

theorem update_existing_step_stub_witness:
  \<open>resolve_step elaborated (PInt 5) = Some synthesis_files
   \<and> parameters synthesis_files (PStr ''clock_period'') = Some (PStr ''1.0'')
   \<and> resolve_step
         (snd (launch_update id (PBool False) (PStr ''clock_period'') (PStr ''2.0'') (PInt 5)
                 (PBool False) elaborated)) (PInt 5)
       = Some synthesis_files
   \<and> launch_update id (PBool False) (PStr ''clock_period'') (PStr ''2.0'') (PInt 5)
         (PBool False) elaborated
       = (Returned,
          elaborated\<lparr>stdout := [''Updated parameter "clock_period" = "2.0" for step "5"'']\<rparr>)\<close>
proof -
  have there: "resolve_step elaborated (PInt 5) = Some synthesis_files"
    by (simp add: resolve_step_def files_of_step_def elaborated_def)
  have defined: "parameters synthesis_files (PStr ''clock_period'') = Some (PStr ''1.0'')"
    by (simp add: synthesis_files_def)
  have printed:
    \<open>launch_update id (PBool False) (PStr ''clock_period'') (PStr ''2.0'') (PInt 5)
         (PBool False) elaborated
       = (Returned,
          elaborated\<lparr>stdout := [''Updated parameter "clock_period" = "2.0" for step "5"'']\<rparr>)\<close>
    by (simp add: launch_update_def print_def updated_line_def elaborated_def show_int_def
        show_nat.simps digit_char_def)
  show ?thesis
    using there defined printed
      update_existing_step_stub [OF there defined, of id "PBool False" "PStr ''2.0''"
        "PBool False"]
    by simp
qed

subsection \<open>A step that does not exist\<close>

text \<open>
  C2, as the code has it. When the \<^verbatim>\<open>--step\<close> value does not resolve to a step of the
  graph, \<^verbatim>\<open>launch_update\<close> changes no configuration and no run script, for every key
  and value. It reports no error: the call returns to its caller, so the process
  ends with status 0.
\<close>

theorem update_unknown_step:
  assumes "resolve_step w step = None"
  shows "metadata (snd (launch_update bold help' key val step all' w)) = metadata w
         \<and> fst (launch_update bold help' key val step all' w) = Returned
         \<and> exit_status (fst (launch_update bold help' key val step all' w)) = 0"
  by (simp add: metadata_launch_update fst_launch_update)

theorem update_unknown_step_witness:
  "resolve_step elaborated (PStr ''7'') = None
   \<and> metadata (snd (launch_update id (PBool False) (PStr ''clock_period'') (PStr ''2.0'')
                       (PStr ''7'') (PBool False) elaborated))
       = metadata elaborated
   \<and> fst (launch_update id (PBool False) (PStr ''clock_period'') (PStr ''2.0'')
             (PStr ''7'') (PBool False) elaborated) = Returned"
proof -
  have unknown: "resolve_step elaborated (PStr ''7'') = None"
    by (simp add: resolve_step_def files_of_step_def elaborated_def decimal_def digit_val_def)
  show ?thesis
    using unknown
      update_unknown_step [OF unknown, of id "PBool False" "PStr ''clock_period''"
        "PStr ''2.0''" "PBool False"]
    by simp
qed

text \<open>
  C2 as the specification states it fails: for step 9, which the elaborated graph does
  not have, the call ends with status 0 and its only output is the confirmation of an
  update; no StepNotFound error is reported.
\<close>

theorem update_unknown_step_counterexample:
  \<open>resolve_step elaborated (PInt 9) = None
   \<and> exit_status (fst (launch_update id (PBool False) (PStr ''clock_period'') (PStr ''2.0'')
                          (PInt 9) (PBool False) elaborated)) = 0
   \<and> stdout (snd (launch_update id (PBool False) (PStr ''clock_period'') (PStr ''2.0'')
                      (PInt 9) (PBool False) elaborated))
       = [''Updated parameter "clock_period" = "2.0" for step "9"'']\<close>
  by (simp add: run_simps)

subsection \<open>A key that the step does not define\<close>

text \<open>
  C3, as the code has it. A step whose parameters do not contain the key has the same
  configuration and the same run script after \<^verbatim>\<open>launch_update\<close> as before, whatever
  the flags are (so in particular when the step is a target of the update): the key
  is never inserted.
\<close>

theorem update_absent_key:
  assumes "files_of_step w n = Some f" and "parameters f key = None"
  shows "files_of_step (snd (launch_update bold help' key val step all' w)) n = Some f"
  using assms by (simp add: files_of_step_launch_update)

theorem update_absent_key_witness:
  "files_of_step elaborated 6 = Some signoff_files
   \<and> parameters signoff_files (PStr ''clock_period'') = None
   \<and> files_of_step
         (snd (launch_update id (PBool False) (PStr ''clock_period'') (PStr ''2.0'') (PInt 6)
                 (PBool False) elaborated)) 6
       = Some signoff_files"
proof -
  have there: "files_of_step elaborated 6 = Some signoff_files"
    by (simp add: files_of_step_def elaborated_def)
  have absent: "parameters signoff_files (PStr ''clock_period'') = None"
    by (simp add: signoff_files_def)
  show ?thesis
    using there absent
      update_absent_key [OF there absent, of id "PBool False" "PStr ''2.0''" "PInt 6"
        "PBool False"]
    by simp
qed

text \<open>
  C3 as the specification states it fails in what is printed. With \<^verbatim>\<open>--all\<close>, step 6
  of the elaborated graph is a target and does not define \<^verbatim>\<open>clock_period\<close>; the only
  line printed is the confirmation of an update, for the step \<^verbatim>\<open>None\<close>: no line names
  step 6.
\<close>

theorem update_absent_key_counterexample:
  \<open>files_of_step elaborated 6 = Some signoff_files
   \<and> parameters signoff_files (PStr ''clock_period'') = None
   \<and> stdout (snd (launch_update id (PBool False) (PStr ''clock_period'') (PStr ''2.0'')
                      PNone (PBool True) elaborated))
       = [''Updated parameter "clock_period" = "2.0" for step "None"'']
   \<and> CHR ''6'' \<notin> set (last (stdout (snd (launch_update id (PBool False)
                      (PStr ''clock_period'') (PStr ''2.0'') PNone (PBool True) elaborated))))\<close>
  by (simp add: run_simps)

subsection \<open>No elaborated graph\<close>

text \<open>
  C4, as the code has it. When the metadata directory does not exist and the flags
  are valid, \<^verbatim>\<open>launch_update\<close> creates nothing: the directory still does not exist
  afterwards. The command does not abort: the call returns, and the process ends
  with status 0.
\<close>

theorem update_without_metadata:
  assumes "metadata w = None"
    and "\<not> truthy help'" and "truthy key" and "truthy val" and "truthy step \<or> truthy all'"
  shows "metadata (snd (launch_update bold help' key val step all' w)) = None
         \<and> fst (launch_update bold help' key val step all' w) = Returned
         \<and> exit_status (fst (launch_update bold help' key val step all' w)) = 0"
  using assms by (simp add: launch_update_valid)

theorem update_without_metadata_witness:
  "metadata not_elaborated = None
   \<and> truthy (PStr ''clock_period'') \<and> truthy (PStr ''2.0'') \<and> truthy (PBool True)
   \<and> metadata (snd (launch_update id PNone (PStr ''clock_period'') (PStr ''2.0'') PNone
                       (PBool True) not_elaborated)) = None
   \<and> fst (launch_update id PNone (PStr ''clock_period'') (PStr ''2.0'') PNone
             (PBool True) not_elaborated) = Returned"
proof -
  have absent: "metadata not_elaborated = None"
    by (simp add: not_elaborated_def)
  show ?thesis
    using absent
      update_without_metadata [OF absent, of PNone "PStr ''clock_period''" "PStr ''2.0''"
        PNone "PBool True" id]
    by simp
qed

text \<open>
  C4 as the specification states it fails: without a metadata directory,
  \<^verbatim>\<open>--step 5 --key clock_period --value 2.0\<close> ends with status 0, and what it prints is
  the confirmation of an update, not an instruction.
\<close>

theorem update_without_metadata_counterexample:
  \<open>metadata not_elaborated = None
   \<and> exit_status (fst (launch_update id (PBool False) (PStr ''clock_period'') (PStr ''2.0'')
                          (PInt 5) (PBool False) not_elaborated)) = 0
   \<and> stdout (snd (launch_update id (PBool False) (PStr ''clock_period'') (PStr ''2.0'')
                      (PInt 5) (PBool False) not_elaborated))
       = [''Updated parameter "clock_period" = "2.0" for step "5"'']\<close>
  by (simp add: run_simps)

subsection \<open>Missing flags\<close>

text \<open>
  C5. When a required flag is missing (\<^verbatim>\<open>key\<close> or \<^verbatim>\<open>value\<close> is false as a Python
  value, which covers \<^verbatim>\<open>None\<close> for a flag not given, or neither \<^verbatim>\<open>step\<close> nor
  \<^verbatim>\<open>all_\<close> is true), the update command prints the usage text of \<^verbatim>\<open>print_help\<close> and
  nothing else, returns, so that the process ends with status 0, and touches no file.
  This holds for \<^verbatim>\<open>launch_update\<close> and for \<^verbatim>\<open>launch\<close> with the one positional
  argument \<^verbatim>\<open>update\<close>.
\<close>

theorem update_missing_flag:
  assumes "\<not> truthy key \<or> \<not> truthy val \<or> \<not> (truthy step \<or> truthy all')"
  shows "launch_update bold help' key val step all' w
           = (Returned, w\<lparr>stdout := stdout w @ map unwords (print_help_lines bold)\<rparr>)
         \<and> launch bold [''update''] help' key val step all' w
           = (Returned, w\<lparr>stdout := stdout w @ map unwords (print_help_lines bold)\<rparr>)
         \<and> exit_status (fst (launch bold [''update''] help' key val step all' w)) = 0
         \<and> metadata (snd (launch bold [''update''] help' key val step all' w)) = metadata w"
  using assms by (simp add: launch_single_update launch_update_help)

theorem update_missing_flag_witness:
  "\<not> truthy PNone
   \<and> launch id [''update''] (PBool False) (PStr ''clock_period'') PNone (PInt 5) (PBool False)
         elaborated
       = (Returned, elaborated\<lparr>stdout := map unwords (print_help_lines id)\<rparr>)"
  using update_missing_flag [of "PStr ''clock_period''" PNone "PInt 5" "PBool False" id
      "PBool False" elaborated]
  by (simp add: elaborated_def)

subsection \<open>Dispatch\<close>

text \<open>
  C6. When the first positional argument is not one of the recognised commands
  (\<^verbatim>\<open>update\<close>, \<^verbatim>\<open>help\<close>), \<^verbatim>\<open>launch\<close> prints the error line
  \<^verbatim>\<open>param: Unrecognized commands (see "mflowgen param help")\<close> and ends the process
  with status 1, whatever the flags are; nothing else is printed and the metadata
  is left alone.
\<close>

theorem launch_unrecognized_command:
  assumes "command \<noteq> ''update''" and "command \<noteq> ''help''"
  shows "launch bold (command # rest) help' key val step all' w
           = (Exited 1, w\<lparr>stdout := stdout w @ [unrecognized_commands]\<rparr>)
         \<and> exit_status (fst (launch bold (command # rest) help' key val step all' w)) \<noteq> 0"
  using assms by (simp add: launch_def commands_def print_def)

theorem launch_unrecognized_command_witness:
  "''udpate'' \<noteq> ''update'' \<and> ''udpate'' \<noteq> ''help''
   \<and> launch id [''udpate'', ''now''] (PBool True) (PStr ''k'') PNone PNone PNone not_elaborated
       = (Exited 1, not_elaborated\<lparr>stdout := [unrecognized_commands]\<rparr>)"
  using launch_unrecognized_command [of "''udpate''" id "[''now'']" "PBool True" "PStr ''k''"
      PNone PNone PNone not_elaborated]
  by (simp add: not_elaborated_def)

subsection \<open>The confirmation line\<close>

text \<open>
  C7 asks for one confirmation line per affected step, printed only when that step
  was updated. What the code does is this: \<^verbatim>\<open>launch_update\<close> prints the line once per
  call that passes the guard, with the \<^verbatim>\<open>--step\<close> value as it was given, after an empty
  implementation block, so that no file of any step has changed.
\<close>

theorem update_confirmation_stub:
  assumes "\<not> truthy help'" and "truthy key" and "truthy val" and "truthy step \<or> truthy all'"
  shows "stdout (snd (launch_update bold help' key val step all' w))
           = stdout w @ [updated_line key val step]
         \<and> metadata (snd (launch_update bold help' key val step all' w)) = metadata w"
  using assms by (simp add: launch_update_valid)

text \<open>
  With \<^verbatim>\<open>--all --key design_name --value Adder\<close> on the elaborated graph, where steps 5
  and 6 both define \<^verbatim>\<open>design_name\<close>, one line is printed, for the step \<^verbatim>\<open>None\<close>, and
  both steps keep their files.
\<close>

theorem update_confirmation_stub_witness:
  \<open>parameters synthesis_files (PStr ''design_name'') = Some (PStr ''GcdUnit'')
   \<and> parameters signoff_files (PStr ''design_name'') = Some (PStr ''GcdUnit'')
   \<and> stdout (snd (launch_update id (PBool False) (PStr ''design_name'') (PStr ''Adder'')
                      PNone (PBool True) elaborated))
       = [''Updated parameter "design_name" = "Adder" for step "None"'']
   \<and> metadata (snd (launch_update id (PBool False) (PStr ''design_name'') (PStr ''Adder'')
                        PNone (PBool True) elaborated))
       = Some [5 \<mapsto> synthesis_files, 6 \<mapsto> signoff_files]\<close>
  using update_confirmation_stub [of "PBool False" "PStr ''design_name''" "PStr ''Adder''"
      PNone "PBool True" id elaborated]
  by (simp add: updated_line_def elaborated_def synthesis_files_def signoff_files_def)

subsection \<open>Idempotence\<close>

text \<open>
  C8. Applying \<^verbatim>\<open>update(key, value, S)\<close> twice in a row leaves the same configuration
  (and the same run script) in every step as applying it once. This holds for every
  key, value, step and world, so in particular for every existing step \<open>S\<close>.
\<close>

theorem update_idempotent:
  "metadata (snd (launch_update bold help' key val step all'
                    (snd (launch_update bold help' key val step all' w))))
     = metadata (snd (launch_update bold help' key val step all' w))"
  by (simp add: metadata_launch_update)

theorem update_idempotent_witness:
  "resolve_step
       (snd (launch_update id (PBool False) (PStr ''clock_period'') (PStr ''2.0'') (PInt 5)
               (PBool False)
               (snd (launch_update id (PBool False) (PStr ''clock_period'') (PStr ''2.0'')
                       (PInt 5) (PBool False) elaborated)))) (PInt 5)
     = resolve_step
         (snd (launch_update id (PBool False) (PStr ''clock_period'') (PStr ''2.0'') (PInt 5)
                 (PBool False) elaborated)) (PInt 5)"
  using update_idempotent [of id "PBool False" "PStr ''clock_period''" "PStr ''2.0''" "PInt 5"
      "PBool False" elaborated]
  by (simp add: resolve_step_def files_of_step_def)

subsection \<open>Further positional arguments\<close>

text \<open>
  C9. When \<^verbatim>\<open>launch\<close> is given a recognised command followed by further positional
  arguments, it prints an empty line and \<^verbatim>\<open>param: Unrecognized positional args\<close>,
  sets the help flag, and dispatches: for \<^verbatim>\<open>update\<close> the usage text of
  \<^verbatim>\<open>launch_update\<close> is printed, for \<^verbatim>\<open>help\<close> the text of \<^verbatim>\<open>launch_help\<close>. Nothing else
  is printed, no update is performed, and the call returns (it does not exit).
\<close>

theorem launch_extra_positional_args:
  assumes "command = ''update'' \<or> command = ''help''" and "rest \<noteq> []"
  shows "launch bold (command # rest) help' key val step all' w
           = (Returned,
              w\<lparr>stdout := stdout w @ [[], ''param: Unrecognized positional args'']
                   @ map unwords (if command = ''update'' then print_help_lines bold
                                  else launch_help_lines bold)\<rparr>)
         \<and> metadata (snd (launch bold (command # rest) help' key val step all' w)) = metadata w"
  using assms
  by (auto simp add: launch_def commands_def launch_help_def launch_update_help prints_eq
      print_def)

theorem launch_extra_positional_args_witness:
  "[''5''] \<noteq> []
   \<and> launch id [''update'', ''5''] (PBool False) (PStr ''clock_period'') (PStr ''2.0'') (PInt 5)
         (PBool False) elaborated
       = (Returned,
          elaborated\<lparr>stdout := [[], ''param: Unrecognized positional args'']
                        @ map unwords (print_help_lines id)\<rparr>)"
  using launch_extra_positional_args [of "''update''" "[''5'']" id "PBool False"
      "PStr ''clock_period''" "PStr ''2.0''" "PInt 5" "PBool False" elaborated]
  by (simp add: elaborated_def)

section \<open>Properties of the instruction buffer datapath\<close>

lemma push_drop_bit_word32:
  "push_bit k (drop_bit k x) = x AND NOT (mask k)" for x :: "32 word"
  by (rule bit_word_eqI) (auto simp: bit_simps)

lemma take_push_bit_word32:
  "take_bit k (push_bit k x) = 0" for x :: "32 word"
  by (rule bit_word_eqI) (auto simp: bit_simps)

lemma drop_push_drop_bit_word32:
  "drop_bit k (push_bit k (drop_bit k x)) = drop_bit k x" for x :: "32 word"
  by (rule bit_word_eqI) (auto simp: bit_simps dest: bit_imp_le_length)

lemma addr_comb_memreq_msg_pack:
  "addr (memreq_msg (comb_memreq_msg_pack TYPE_READ line_nbytes s))
     = push_bit (line_bw line_nbytes) (drop_bit (line_bw line_nbytes) (buffreq_addr_reg_out s))"
  by (simp add: comb_memreq_msg_pack_def concat_zeros_def slice_from_def)

text \<open>
  C10. The memory request of the datapath is always a read. For every state of the
  signals, every line size and every encoding of \<^verbatim>\<open>TYPE_READ\<close>,
  \<^verbatim>\<open>comb_memreq_msg_pack\<close> drives \<^verbatim>\<open>memreq_msg.type_\<close> with \<^verbatim>\<open>TYPE_READ\<close>, \<^verbatim>\<open>opaque\<close>
  with 0, \<^verbatim>\<open>len\<close> with 0, and \<^verbatim>\<open>addr\<close> with the registered request address whose low
  \<^verbatim>\<open>line_bw\<close> bits are cleared: the address is line-aligned and keeps the tag bits.
\<close>

theorem comb_memreq_msg_pack_read:
  "type' (memreq_msg (comb_memreq_msg_pack TYPE_READ line_nbytes s)) = TYPE_READ
   \<and> opaque (memreq_msg (comb_memreq_msg_pack TYPE_READ line_nbytes s)) = 0
   \<and> len (memreq_msg (comb_memreq_msg_pack TYPE_READ line_nbytes s)) = 0
   \<and> addr (memreq_msg (comb_memreq_msg_pack TYPE_READ line_nbytes s))
       = buffreq_addr_reg_out s AND NOT (mask (line_bw line_nbytes))
   \<and> take_bit (line_bw line_nbytes)
         (addr (memreq_msg (comb_memreq_msg_pack TYPE_READ line_nbytes s))) = 0
   \<and> drop_bit (line_bw line_nbytes)
         (addr (memreq_msg (comb_memreq_msg_pack TYPE_READ line_nbytes s)))
       = drop_bit (line_bw line_nbytes) (buffreq_addr_reg_out s)"
proof (intro conjI)
  show "addr (memreq_msg (comb_memreq_msg_pack TYPE_READ line_nbytes s))
          = buffreq_addr_reg_out s AND NOT (mask (line_bw line_nbytes))"
    by (simp only: addr_comb_memreq_msg_pack push_drop_bit_word32)
  show "take_bit (line_bw line_nbytes)
          (addr (memreq_msg (comb_memreq_msg_pack TYPE_READ line_nbytes s))) = 0"
    by (simp only: addr_comb_memreq_msg_pack take_push_bit_word32)
  show "drop_bit (line_bw line_nbytes)
          (addr (memreq_msg (comb_memreq_msg_pack TYPE_READ line_nbytes s)))
        = drop_bit (line_bw line_nbytes) (buffreq_addr_reg_out s)"
    by (simp only: addr_comb_memreq_msg_pack drop_push_drop_bit_word32)
qed (simp_all add: comb_memreq_msg_pack_def)

text \<open>
  With lines of 16 bytes the offset has 4 bits: the registered address
  \<open>0x1234ABCD\<close> is requested as \<open>0x1234ABC0\<close>, whatever the port held before.
\<close>

theorem comb_memreq_msg_pack_read_witness:
  "addr (memreq_msg (comb_memreq_msg_pack 0 16
       \<lparr>buffreq_addr_reg_out = 0x1234ABCD,
        memreq_msg = \<lparr>type' = 1, opaque = 7, addr = 5, len = 3, data = 9\<rparr>\<rparr>)) = 0x1234ABC0
   \<and> type' (memreq_msg (comb_memreq_msg_pack 0 16
       \<lparr>buffreq_addr_reg_out = 0x1234ABCD,
        memreq_msg = \<lparr>type' = 1, opaque = 7, addr = 5, len = 3, data = 9\<rparr>\<rparr>)) = 0"
  using comb_memreq_msg_pack_read [of 0 16 "\<lparr>buffreq_addr_reg_out = 0x1234ABCD,
        memreq_msg = \<lparr>type' = 1, opaque = 7, addr = 5, len = 3, data = 9\<rparr>\<rparr>"]
  by (simp add: line_bw_def clog2.simps mask_eq_exp_minus_1)

end
